theory Spec2Isabelle
  imports Main "HOL-Library.AList"
begin

section \<open>The object model that the library manipulates\<close>

text \<open>
  The library (\<^verbatim>\<open>src/index.js\<close>) is four small functions over the object graph of the
  host language: own properties with attributes, prototype links, function objects, and one
  interception wrapper. The embedding below is that object graph, written out.

  Fragment covered: properties are named by strings; a property is a data property (value,
  writable, enumerable, configurable) or an accessor property (getter, setter, enumerable,
  configurable); an object is extensible or not; own keys are enumerated as the language
  does, array indices first in ascending order, then the other keys in insertion order.
  The heap knows the built-in \<^verbatim>\<open>Object.prototype\<close>, the parent of every object literal, and
  the built-in function \<^verbatim>\<open>Object\<close> is a kind of object of its own. Functions, arrays and
  interception wrappers have no parent here (\<^verbatim>\<open>Function.prototype\<close> and \<^verbatim>\<open>Array.prototype\<close> are
  not part of the heap), and \<^verbatim>\<open>f.apply(t, args)\<close> is the call of \<^verbatim>\<open>f\<close>. An array is an object
  that carries its elements, which are read by \<^verbatim>\<open>Reflect.construct\<close> only (its indices and its
  \<^verbatim>\<open>length\<close> are not properties here). The file is an ES module, hence strict code: a refused
  assignment or deletion raises \<^verbatim>\<open>TypeError\<close>. Wherever the host language would do something
  outside this fragment the model answers \<open>Stuck\<close>, which is also the answer when the fuel of
  a loop or of the call depth is used up.
\<close>

type_synonym addr = nat
type_synonym fid = nat

datatype val = Undefined | Null | Bool bool | Num int | Str string | Ref addr

datatype property =
    Data val bool bool bool
  | Accessor val val bool bool

datatype kind =
    Ordinary
  | Array "val list"
  | Function fid
  | SuperThunk addr string
  | SuperProxy addr
  | DerivedClass val val
  | ObjectFunction
  | Wrapper val

record obj =
  props :: "(string \<times> property) list"
  proto :: "addr option"
  kind :: kind
  extensible :: bool

record heap =
  objs :: "addr \<Rightarrow> obj"
  nxt :: addr
  objectProto :: addr

datatype exn = TypeError | Thrown val

datatype 'a result = Ok 'a heap | Fail exn heap | Stuck

fun bind :: "'a result \<Rightarrow> ('a \<Rightarrow> heap \<Rightarrow> 'b result) \<Rightarrow> 'b result" where
  "bind (Ok v h) f = f v h"
| "bind (Fail e h) f = Fail e h"
| "bind Stuck f = Stuck"

text \<open>What user code and the library may ask of the runtime and of the library.\<close>

datatype request =
    Call val val "val list"
  | Construct val "val list" val
  | Get val string
  | Put val string val
  | CallSuper val string "val list"
  | Super val
  | PropertyTag val
  | Enhance val val
  | Extend val val

type_synonym runtime = "request \<Rightarrow> heap \<Rightarrow> val result"

text \<open>A user-supplied function body: it receives the runtime, its receiver and its arguments.\<close>

type_synonym body = "runtime \<Rightarrow> val \<Rightarrow> val list \<Rightarrow> heap \<Rightarrow> val result"
type_synonym program = "fid \<Rightarrow> body"

subsection \<open>Own properties\<close>

fun enumerable :: "property \<Rightarrow> bool" where
  "enumerable (Data v w e c) = e"
| "enumerable (Accessor g s e c) = e"

fun configurable :: "property \<Rightarrow> bool" where
  "configurable (Data v w e c) = c"
| "configurable (Accessor g s e c) = c"

text \<open>The \<^verbatim>\<open>value\<close> field of the descriptor object that \<^verbatim>\<open>Object.getOwnPropertyDescriptor\<close> builds.\<close>

fun descriptorValue :: "property \<Rightarrow> val" where
  "descriptorValue (Data v w e c) = v"
| "descriptorValue (Accessor g s e c) = Undefined"

definition getOwn :: "heap \<Rightarrow> addr \<Rightarrow> string \<Rightarrow> property option" where
  "getOwn h a k = map_of (props (objs h a)) k"

definition setOwn :: "heap \<Rightarrow> addr \<Rightarrow> string \<Rightarrow> property \<Rightarrow> heap" where
  "setOwn h a k p =
     h\<lparr>objs := (objs h)(a := (objs h a)\<lparr>props := AList.update k p (props (objs h a))\<rparr>)\<rparr>"

definition removeOwn :: "heap \<Rightarrow> addr \<Rightarrow> string \<Rightarrow> heap" where
  "removeOwn h a k =
     h\<lparr>objs := (objs h)(a := (objs h a)\<lparr>props := AList.delete k (props (objs h a))\<rparr>)\<rparr>"

definition alloc :: "heap \<Rightarrow> obj \<Rightarrow> addr \<times> heap" where
  "alloc h ob = (nxt h, h\<lparr>objs := (objs h)(nxt h := ob), nxt := Suc (nxt h)\<rparr>)"

text \<open>A new object without properties and without parent, of kind \<open>k\<close>.\<close>

definition bare :: "kind \<Rightarrow> obj" where
  "bare k = \<lparr>props = [], proto = None, kind = k, extensible = True\<rparr>"

text \<open>The object literal \<^verbatim>\<open>{}\<close>: its parent is \<^verbatim>\<open>Object.prototype\<close>.\<close>

definition newObject :: "heap \<Rightarrow> obj" where
  "newObject h = \<lparr>props = [], proto = Some (objectProto h), kind = Ordinary, extensible = True\<rparr>"

definition isProxy :: "heap \<Rightarrow> addr \<Rightarrow> bool" where
  "isProxy h a = (case kind (objs h a) of SuperProxy t \<Rightarrow> True | _ \<Rightarrow> False)"

fun truthy :: "val \<Rightarrow> bool" where
  "truthy Undefined = False"
| "truthy Null = False"
| "truthy (Bool b) = b"
| "truthy (Num n) = (n \<noteq> 0)"
| "truthy (Str s) = (s \<noteq> [])"
| "truthy (Ref a) = True"

definition protoVal :: "heap \<Rightarrow> addr \<Rightarrow> val" where
  "protoVal h a = (case proto (objs h a) of None \<Rightarrow> Null | Some b \<Rightarrow> Ref b)"

subsection \<open>The internal methods of ordinary objects\<close>

fun lift :: "'a option \<Rightarrow> heap \<Rightarrow> 'a result" where
  "lift None h = Stuck"
| "lift (Some x) h = Ok x h"

text \<open>\<^verbatim>\<open>k in o\<close>: the walk along the prototype links.\<close>

primrec hasProperty :: "nat \<Rightarrow> heap \<Rightarrow> addr \<Rightarrow> string \<Rightarrow> bool option" where
  "hasProperty 0 h a k = None"
| "hasProperty (Suc n) h a k =
     (if isProxy h a then None
      else case getOwn h a k of
        Some p \<Rightarrow> Some True
      | None \<Rightarrow> (case proto (objs h a) of None \<Rightarrow> Some False | Some b \<Rightarrow> hasProperty n h b k))"

text \<open>
  The \<^verbatim>\<open>get\<close> trap of the wrapper of \<^verbatim>\<open>$super\<close> (lines 54-58): it builds a new arrow function
  closed over the target and the property name. The runtime then enforces the invariant of
  every interception wrapper: an own, non-configurable, non-writable data property of the
  target must be reported with its own value, and an own non-configurable accessor without
  getter as \<^verbatim>\<open>undefined\<close>; otherwise the read raises \<^verbatim>\<open>TypeError\<close>.
\<close>

definition proxyGet :: "heap \<Rightarrow> addr \<Rightarrow> string \<Rightarrow> val result" where
  "proxyGet h t k =
     (case alloc h (bare (SuperThunk t k)) of (f, h1) \<Rightarrow>
        if isProxy h1 t then Stuck
        else case getOwn h1 t k of
          None \<Rightarrow> Ok (Ref f) h1
        | Some (Data v w e c) \<Rightarrow>
            if \<not> c \<and> \<not> w \<and> v \<noteq> Ref f then Fail TypeError h1 else Ok (Ref f) h1
        | Some (Accessor g s e c) \<Rightarrow>
            if \<not> c \<and> g = Undefined then Fail TypeError h1 else Ok (Ref f) h1)"

text \<open>\<^verbatim>\<open>o[k]\<close> with receiver \<open>r\<close>: a getter found on the way is user code and is called.\<close>

primrec getLoop :: "runtime \<Rightarrow> nat \<Rightarrow> heap \<Rightarrow> addr \<Rightarrow> string \<Rightarrow> val \<Rightarrow> val result" where
  "getLoop rt 0 h a k r = Stuck"
| "getLoop rt (Suc n) h a k r =
     (case kind (objs h a) of
        SuperProxy t \<Rightarrow> proxyGet h t k
      | _ \<Rightarrow>
        (case getOwn h a k of
           Some (Data v w e c) \<Rightarrow> Ok v h
         | Some (Accessor g s e c) \<Rightarrow> if g = Undefined then Ok Undefined h else rt (Call g r []) h
         | None \<Rightarrow>
           (case proto (objs h a) of None \<Rightarrow> Ok Undefined h | Some b \<Rightarrow> getLoop rt n h b k r)))"

definition getV :: "runtime \<Rightarrow> nat \<Rightarrow> val \<Rightarrow> string \<Rightarrow> heap \<Rightarrow> val result" where
  "getV rt n base k h =
     (case base of
        Ref a \<Rightarrow> getLoop rt n h a k base
      | Undefined \<Rightarrow> Fail TypeError h
      | Null \<Rightarrow> Fail TypeError h
      | _ \<Rightarrow> Stuck)"

text \<open>The strict assignment \<^verbatim>\<open>o[k] = v\<close>.\<close>

definition putOnReceiver :: "heap \<Rightarrow> addr \<Rightarrow> string \<Rightarrow> val \<Rightarrow> val result" where
  "putOnReceiver h r k v =
     (if isProxy h r then Stuck
      else case getOwn h r k of
        None \<Rightarrow>
          if extensible (objs h r) then Ok v (setOwn h r k (Data v True True True))
          else Fail TypeError h
      | Some (Data v0 w e c) \<Rightarrow> if w then Ok v (setOwn h r k (Data v w e c)) else Fail TypeError h
      | Some (Accessor g s e c) \<Rightarrow> Fail TypeError h)"

primrec putLoop :: "runtime \<Rightarrow> nat \<Rightarrow> heap \<Rightarrow> addr \<Rightarrow> string \<Rightarrow> val \<Rightarrow> addr \<Rightarrow> val result" where
  "putLoop rt 0 h a k v r = Stuck"
| "putLoop rt (Suc n) h a k v r =
     (if isProxy h a then Stuck
      else case getOwn h a k of
        Some (Data v0 w e c) \<Rightarrow> if w then putOnReceiver h r k v else Fail TypeError h
      | Some (Accessor g s e c) \<Rightarrow>
          if s = Undefined then Fail TypeError h
          else bind (rt (Call s (Ref r) [v]) h) (\<lambda>u h'. Ok v h')
      | None \<Rightarrow>
          (case proto (objs h a) of
             None \<Rightarrow> putOnReceiver h r k v
           | Some b \<Rightarrow> putLoop rt n h b k v r))"

definition putV :: "runtime \<Rightarrow> nat \<Rightarrow> val \<Rightarrow> string \<Rightarrow> val \<Rightarrow> heap \<Rightarrow> val result" where
  "putV rt n base k v h =
     (case base of
        Ref a \<Rightarrow> putLoop rt n h a k v a
      | Undefined \<Rightarrow> Fail TypeError h
      | Null \<Rightarrow> Fail TypeError h
      | _ \<Rightarrow> Stuck)"

text \<open>The strict \<^verbatim>\<open>delete o[k]\<close>.\<close>

definition deleteProp :: "heap \<Rightarrow> addr \<Rightarrow> string \<Rightarrow> val result" where
  "deleteProp h a k =
     (if isProxy h a then Stuck
      else case getOwn h a k of
        None \<Rightarrow> Ok (Bool True) h
      | Some p \<Rightarrow> if configurable p then Ok (Bool True) (removeOwn h a k) else Fail TypeError h)"

text \<open>
  The order of the own keys: a key that is an array index (a canonical decimal numeral
  below \<open>2^32 - 1\<close>) comes before every other key, the indices in ascending order; the other
  keys follow in the order of their creation.
\<close>

definition isDigit :: "char \<Rightarrow> bool" where
  "isDigit c = (48 \<le> (of_char c :: nat) \<and> (of_char c :: nat) \<le> 57)"

definition digitValue :: "char \<Rightarrow> nat" where
  "digitValue c = of_char c - 48"

fun canonical :: "string \<Rightarrow> bool" where
  "canonical [] = False"
| "canonical [c] = isDigit c"
| "canonical (c # cs) = (c \<noteq> CHR ''0'' \<and> list_all isDigit (c # cs))"

definition arrayIndex :: "string \<Rightarrow> nat option" where
  "arrayIndex s =
     (if canonical s \<and> foldl (\<lambda>n c. 10 * n + digitValue c) 0 s < 4294967295
      then Some (foldl (\<lambda>n c. 10 * n + digitValue c) 0 s)
      else None)"

definition indexOrder :: "string \<Rightarrow> nat" where
  "indexOrder k = (case arrayIndex k of None \<Rightarrow> 0 | Some i \<Rightarrow> i)"

definition ownKeys :: "heap \<Rightarrow> addr \<Rightarrow> string list" where
  "ownKeys h a =
     sort_key indexOrder (filter (\<lambda>k. arrayIndex k \<noteq> None) (remdups (map fst (props (objs h a)))))
     @ filter (\<lambda>k. arrayIndex k = None) (remdups (map fst (props (objs h a))))"

definition isEnumerable :: "heap \<Rightarrow> addr \<Rightarrow> string \<Rightarrow> bool" where
  "isEnumerable h a k = (case getOwn h a k of None \<Rightarrow> False | Some p \<Rightarrow> enumerable p)"

definition ownEnumKeys :: "heap \<Rightarrow> addr \<Rightarrow> string list" where
  "ownEnumKeys h a = filter (isEnumerable h a) (ownKeys h a)"

text \<open>
  The keys a \<^verbatim>\<open>for (const key in o)\<close> visits: the enumerable keys of the object, then those
  of its parents that no nearer level defines. The list is taken when the loop starts.
\<close>

primrec forInKeys :: "nat \<Rightarrow> heap \<Rightarrow> addr \<Rightarrow> string list \<Rightarrow> string list option" where
  "forInKeys 0 h a seen = None"
| "forInKeys (Suc n) h a seen =
     (if isProxy h a then None
      else
        (case proto (objs h a) of
           None \<Rightarrow> Some (filter (\<lambda>k. \<not> List.member seen k) (ownEnumKeys h a))
         | Some b \<Rightarrow>
             map_option (\<lambda>r. filter (\<lambda>k. \<not> List.member seen k) (ownEnumKeys h a) @ r)
               (forInKeys n h b (seen @ ownKeys h a))))"

subsection \<open>\<^verbatim>\<open>Object.defineProperty\<close>\<close>

record pdesc =
  d_enumerable :: "bool option"
  d_configurable :: "bool option"
  d_value :: "val option"
  d_writable :: "bool option"
  d_get :: "val option"
  d_set :: "val option"

fun orElse :: "'a option \<Rightarrow> 'a \<Rightarrow> 'a" where
  "orElse None d = d"
| "orElse (Some x) d = x"

definition isCallable :: "heap \<Rightarrow> val \<Rightarrow> bool option" where
  "isCallable h v =
     (case v of
        Ref a \<Rightarrow>
          (case kind (objs h a) of
             Function i \<Rightarrow> Some True
           | SuperThunk t k \<Rightarrow> Some True
           | DerivedClass b d \<Rightarrow> Some True
           | ObjectFunction \<Rightarrow> Some True
           | SuperProxy t \<Rightarrow> None
           | _ \<Rightarrow> Some False)
      | _ \<Rightarrow> Some False)"

definition readField :: "runtime \<Rightarrow> nat \<Rightarrow> addr \<Rightarrow> string \<Rightarrow> heap \<Rightarrow> val option result" where
  "readField rt n d k h =
     bind (lift (hasProperty n h d k) h) (\<lambda>present h1.
       if present then bind (getLoop rt n h1 d k (Ref d)) (\<lambda>v h2. Ok (Some v) h2)
       else Ok None h1)"

definition checkFunction :: "val option \<Rightarrow> heap \<Rightarrow> val option result" where
  "checkFunction f h =
     (case f of
        None \<Rightarrow> Ok None h
      | Some v \<Rightarrow>
          if v = Undefined then Ok f h
          else bind (lift (isCallable h v) h) (\<lambda>c h1. if c then Ok f h1 else Fail TypeError h1))"

definition toPropertyDescriptor :: "runtime \<Rightarrow> nat \<Rightarrow> addr \<Rightarrow> heap \<Rightarrow> pdesc result" where
  "toPropertyDescriptor rt n d h =
     bind (readField rt n d ''enumerable'' h) (\<lambda>e h1.
     bind (readField rt n d ''configurable'' h1) (\<lambda>c h2.
     bind (readField rt n d ''value'' h2) (\<lambda>v h3.
     bind (readField rt n d ''writable'' h3) (\<lambda>w h4.
     bind (readField rt n d ''get'' h4) (\<lambda>g0 h5.
     bind (checkFunction g0 h5) (\<lambda>g h6.
     bind (readField rt n d ''set'' h6) (\<lambda>s0 h7.
     bind (checkFunction s0 h7) (\<lambda>s h8.
       if \<not> (g = None \<and> s = None) \<and> \<not> (v = None \<and> w = None) then Fail TypeError h8
       else Ok \<lparr>d_enumerable = map_option truthy e, d_configurable = map_option truthy c,
                d_value = v, d_writable = map_option truthy w, d_get = g, d_set = s\<rparr> h8))))))))"

definition isAccessorDescriptor :: "pdesc \<Rightarrow> bool" where
  "isAccessorDescriptor d = (\<not> (d_get d = None \<and> d_set d = None))"

definition isDataDescriptor :: "pdesc \<Rightarrow> bool" where
  "isDataDescriptor d = (\<not> (d_value d = None \<and> d_writable d = None))"

definition differs :: "'a option \<Rightarrow> 'a \<Rightarrow> bool" where
  "differs x y = (case x of None \<Rightarrow> False | Some z \<Rightarrow> z \<noteq> y)"

definition freshProperty :: "pdesc \<Rightarrow> property" where
  "freshProperty d =
     (if isAccessorDescriptor d
      then Accessor (orElse (d_get d) Undefined) (orElse (d_set d) Undefined)
             (orElse (d_enumerable d) False) (orElse (d_configurable d) False)
      else Data (orElse (d_value d) Undefined) (orElse (d_writable d) False)
             (orElse (d_enumerable d) False) (orElse (d_configurable d) False))"

fun rejected :: "property \<Rightarrow> pdesc \<Rightarrow> bool" where
  "rejected (Data v w e c) d =
     (\<not> c \<and> (d_configurable d = Some True \<or> differs (d_enumerable d) e \<or> isAccessorDescriptor d
            \<or> (\<not> w \<and> (d_writable d = Some True \<or> differs (d_value d) v))))"
| "rejected (Accessor g s e c) d =
     (\<not> c \<and> (d_configurable d = Some True \<or> differs (d_enumerable d) e \<or> isDataDescriptor d
            \<or> differs (d_get d) g \<or> differs (d_set d) s))"

fun merged :: "property \<Rightarrow> pdesc \<Rightarrow> property" where
  "merged (Data v w e c) d =
     (if isAccessorDescriptor d
      then Accessor (orElse (d_get d) Undefined) (orElse (d_set d) Undefined)
             (orElse (d_enumerable d) e) (orElse (d_configurable d) c)
      else Data (orElse (d_value d) v) (orElse (d_writable d) w)
             (orElse (d_enumerable d) e) (orElse (d_configurable d) c))"
| "merged (Accessor g s e c) d =
     (if isDataDescriptor d
      then Data (orElse (d_value d) Undefined) (orElse (d_writable d) False)
             (orElse (d_enumerable d) e) (orElse (d_configurable d) c)
      else Accessor (orElse (d_get d) g) (orElse (d_set d) s)
             (orElse (d_enumerable d) e) (orElse (d_configurable d) c))"

definition defineOwnProperty :: "heap \<Rightarrow> addr \<Rightarrow> string \<Rightarrow> pdesc \<Rightarrow> val result" where
  "defineOwnProperty h a k d =
     (if isProxy h a then Stuck
      else case getOwn h a k of
        None \<Rightarrow>
          if extensible (objs h a) then Ok (Ref a) (setOwn h a k (freshProperty d))
          else Fail TypeError h
      | Some cur \<Rightarrow>
          if rejected cur d then Fail TypeError h else Ok (Ref a) (setOwn h a k (merged cur d)))"

definition defineProperty :: "runtime \<Rightarrow> nat \<Rightarrow> val \<Rightarrow> string \<Rightarrow> val \<Rightarrow> heap \<Rightarrow> val result" where
  "defineProperty rt n ob k attributes h =
     (case ob of
        Ref a \<Rightarrow>
          (case attributes of
             Ref d \<Rightarrow> bind (toPropertyDescriptor rt n d h) (\<lambda>pd h1. defineOwnProperty h1 a k pd)
           | _ \<Rightarrow> Fail TypeError h)
      | _ \<Rightarrow> Fail TypeError h)"

subsection \<open>\<^verbatim>\<open>Object.create\<close>, \<^verbatim>\<open>Object.assign\<close>, \<^verbatim>\<open>Reflect.construct\<close>\<close>

definition objectCreate :: "val \<Rightarrow> heap \<Rightarrow> val result" where
  "objectCreate p h =
     (case p of
        Ref a \<Rightarrow> (case alloc h ((bare Ordinary)\<lparr>proto := Some a\<rparr>) of (x, h1) \<Rightarrow> Ok (Ref x) h1)
      | Null \<Rightarrow> (case alloc h (bare Ordinary) of (x, h1) \<Rightarrow> Ok (Ref x) h1)
      | _ \<Rightarrow> Fail TypeError h)"

fun assignLoop :: "runtime \<Rightarrow> nat \<Rightarrow> addr \<Rightarrow> addr \<Rightarrow> string list \<Rightarrow> heap \<Rightarrow> val result" where
  "assignLoop rt n t s [] h = Ok (Ref t) h"
| "assignLoop rt n t s (k # ks) h =
     (case getOwn h s k of
        None \<Rightarrow> assignLoop rt n t s ks h
      | Some p \<Rightarrow>
          if enumerable p
          then bind (getLoop rt n h s k (Ref s)) (\<lambda>v h1.
               bind (putLoop rt n h1 t k v t) (\<lambda>u h2.
                 assignLoop rt n t s ks h2))
          else assignLoop rt n t s ks h)"

definition objectAssign :: "runtime \<Rightarrow> nat \<Rightarrow> val \<Rightarrow> val \<Rightarrow> heap \<Rightarrow> val result" where
  "objectAssign rt n target source h =
     (case target of
        Ref t \<Rightarrow>
          (case source of
             Ref s \<Rightarrow>
               if isProxy h t \<or> isProxy h s then Stuck
               else assignLoop rt n t s (ownKeys h s) h
           | _ \<Rightarrow> Stuck)
      | _ \<Rightarrow> Stuck)"

definition isConstructor :: "heap \<Rightarrow> val \<Rightarrow> bool option" where
  "isConstructor h v =
     (case v of
        Ref a \<Rightarrow>
          (case kind (objs h a) of
             Function i \<Rightarrow> Some True
           | DerivedClass b d \<Rightarrow> Some True
           | ObjectFunction \<Rightarrow> Some True
           | SuperProxy t \<Rightarrow> None
           | _ \<Rightarrow> Some False)
      | _ \<Rightarrow> Some False)"

definition createListFromArrayLike :: "val \<Rightarrow> heap \<Rightarrow> val list result" where
  "createListFromArrayLike v h =
     (case v of
        Ref a \<Rightarrow> (case kind (objs h a) of Array xs \<Rightarrow> Ok xs h | _ \<Rightarrow> Stuck)
      | _ \<Rightarrow> Fail TypeError h)"

definition reflectConstruct :: "runtime \<Rightarrow> val \<Rightarrow> val \<Rightarrow> val \<Rightarrow> heap \<Rightarrow> val result" where
  "reflectConstruct rt target argumentsList newTarget h =
     bind (lift (isConstructor h target) h) (\<lambda>c1 h1.
       if \<not> c1 then Fail TypeError h1
       else bind (lift (isConstructor h1 newTarget) h1) (\<lambda>c2 h2.
         if \<not> c2 then Fail TypeError h2
         else bind (createListFromArrayLike argumentsList h2) (\<lambda>args h3.
           rt (Construct target args newTarget) h3)))"

section \<open>The library: \<^verbatim>\<open>src/index.js\<close>\<close>

subsection \<open>\<^verbatim>\<open>callSuper\<close> (lines 11-41)\<close>

text \<open>
  The \<^verbatim>\<open>while (base)\<close> loop of lines 17-39. \<open>n\<close> bounds the chain walks of the internal
  methods, the next numeric argument bounds the iterations of this loop; \<open>target\<close> is the
  instance as a value and \<open>t\<close> its address.
\<close>

primrec callSuperLoop ::
  "runtime \<Rightarrow> nat \<Rightarrow> nat \<Rightarrow> val \<Rightarrow> addr \<Rightarrow> string \<Rightarrow> val list \<Rightarrow> val \<Rightarrow> val \<Rightarrow> bool \<Rightarrow> heap
     \<Rightarrow> val result" where
  "callSuperLoop rt n 0 target t methodName args directBaseMethod base isSuper h = Stuck"
| "callSuperLoop rt n (Suc i) target t methodName args directBaseMethod base isSuper h =
     (if \<not> truthy base then Ok Undefined h
      else case base of
        Ref b \<Rightarrow>
          if isProxy h b then Stuck
          else
            (case getOwn h b methodName of
               None \<Rightarrow>
                 callSuperLoop rt n i target t methodName args directBaseMethod
                   (protoVal h b) isSuper h
             | Some descriptor \<Rightarrow>
                 if descriptorValue descriptor = directBaseMethod
                 then callSuperLoop rt n i target t methodName args directBaseMethod
                        (protoVal h b) True h
                 else if isSuper
                 then bind (putV rt n target ''$BaseReference'' base h) (\<lambda>u h1.
                      bind (rt (Call (descriptorValue descriptor) target args) h1) (\<lambda>result h2.
                      bind (deleteProp h2 t ''$BaseReference'') (\<lambda>u h3.
                        Ok result h3)))
                 else callSuperLoop rt n i target t methodName args directBaseMethod
                        (protoVal h b) isSuper h)
      | _ \<Rightarrow> Stuck)"

definition callSuper :: "runtime \<Rightarrow> nat \<Rightarrow> val \<Rightarrow> string \<Rightarrow> val list \<Rightarrow> heap \<Rightarrow> val result" where
  "callSuper rt n target methodName args h =
     (case target of
        Ref t \<Rightarrow>
          bind (lift (hasProperty n h t ''$BaseReference'') h) (\<lambda>marked h1.
          bind (if marked then getV rt n target ''$BaseReference'' h1 else Ok target h1) (\<lambda>base h2.
          bind (getV rt n base methodName h2) (\<lambda>directBaseMethod h3.
            callSuperLoop rt n n target t methodName args directBaseMethod base False h3)))
      | _ \<Rightarrow> Fail TypeError h)"

subsection \<open>\<^verbatim>\<open>$super\<close> (lines 49-62)\<close>

definition super :: "runtime \<Rightarrow> nat \<Rightarrow> val \<Rightarrow> heap \<Rightarrow> val result" where
  "super rt n this h =
     (case this of
        Ref t \<Rightarrow>
          bind (lift (hasProperty n h t ''$SuperProxy'') h) (\<lambda>cached h1.
            if cached then getV rt n this ''$SuperProxy'' h1
            else
              (case alloc h1 (bare (SuperProxy t)) of (proxy, h2) \<Rightarrow>
                 bind (putV rt n this ''$SuperProxy'' (Ref proxy) h2) (\<lambda>u h3.
                   Ok (Ref proxy) h3)))
      | _ \<Rightarrow> Fail TypeError h)"

subsection \<open>\<^verbatim>\<open>isMarkedPropertyDescriptor\<close> and \<^verbatim>\<open>property\<close> (lines 63-76)\<close>

definition isMarkedPropertyDescriptor :: "val \<Rightarrow> heap \<Rightarrow> bool result" where
  "isMarkedPropertyDescriptor target h =
     (case target of
        Undefined \<Rightarrow> Fail TypeError h
      | Null \<Rightarrow> Fail TypeError h
      | Ref a \<Rightarrow>
          if isProxy h a then Stuck else Ok (getOwn h a ''$IsPropertyDescriptor'' \<noteq> None) h
      | _ \<Rightarrow> Ok False h)"

definition "property" :: "runtime \<Rightarrow> nat \<Rightarrow> val \<Rightarrow> heap \<Rightarrow> val result" where
  "property rt n descriptor h =
     bind (if \<not> truthy descriptor
           then (case alloc h (newObject h) of (d, h1) \<Rightarrow> Ok (Ref d) h1)
           else Ok descriptor h) (\<lambda>descriptor1 h1.
     bind (putV rt n descriptor1 ''$IsPropertyDescriptor'' (Bool True) h1) (\<lambda>u h2.
       Ok descriptor1 h2))"

subsection \<open>\<^verbatim>\<open>enhance\<close> (lines 84-99)\<close>

fun enhanceLoop :: "runtime \<Rightarrow> nat \<Rightarrow> val \<Rightarrow> addr \<Rightarrow> string list \<Rightarrow> heap \<Rightarrow> val result" where
  "enhanceLoop rt n constructor m [] h = Ok constructor h"
| "enhanceLoop rt n constructor m (key # keys) h =
     (if isProxy h m then Stuck
      else if getOwn h m key = None then enhanceLoop rt n constructor m keys h
      else
        bind (getLoop rt n h m key (Ref m)) (\<lambda>member h1.
        bind (isMarkedPropertyDescriptor member h1) (\<lambda>marked h2.
        bind (getV rt n constructor ''prototype'' h2) (\<lambda>pr h3.
        bind (if marked then defineProperty rt n pr key member h3
              else putV rt n pr key member h3) (\<lambda>u h4.
          enhanceLoop rt n constructor m keys h4)))))"

definition enhance :: "runtime \<Rightarrow> nat \<Rightarrow> val \<Rightarrow> val \<Rightarrow> heap \<Rightarrow> val result" where
  "enhance rt n constructor members h =
     (case members of
        Ref m \<Rightarrow>
          bind (lift (forInKeys n h m []) h) (\<lambda>keys h1. enhanceLoop rt n constructor m keys h1)
      | Str s \<Rightarrow> Stuck
      | _ \<Rightarrow> Ok constructor h)"

subsection \<open>\<^verbatim>\<open>extend\<close> (lines 108-144)\<close>

text \<open>The function \<^verbatim>\<open>derivedClass\<close> of lines 111-123; \<open>self\<close> is the function object itself.\<close>

definition derivedClass ::
  "runtime \<Rightarrow> nat \<Rightarrow> val \<Rightarrow> val \<Rightarrow> val \<Rightarrow> val list \<Rightarrow> heap \<Rightarrow> val result" where
  "derivedClass rt n self baseClass classDescriptor args h =
     (case alloc h (bare (Array args)) of (argsArray, h0) \<Rightarrow>
      case alloc h0 (newObject h0) of (courier, h1) \<Rightarrow>
        bind (getV rt n classDescriptor ''preConstructor'' h1) (\<lambda>pc h2.
        bind (if truthy pc
              then bind (getV rt n classDescriptor ''preConstructor'' h2) (\<lambda>pc1 h3.
                     rt (Call pc1 (Ref courier) args) h3)
              else Ok (Ref argsArray) h2) (\<lambda>baseArgs h4.
        bind (reflectConstruct rt baseClass baseArgs self h4) (\<lambda>result h5.
        bind (objectAssign rt n result (Ref courier) h5) (\<lambda>u h6.
        bind (getV rt n classDescriptor ''constructor'' h6) (\<lambda>ct h7.
        bind (if truthy ct
              then bind (getV rt n classDescriptor ''constructor'' h7) (\<lambda>ct1 h8.
                     rt (Call ct1 result args) h8)
              else Ok Undefined h7) (\<lambda>u h9.
          Ok result h9)))))))"

fun extendLoop :: "runtime \<Rightarrow> nat \<Rightarrow> val \<Rightarrow> addr \<Rightarrow> string list \<Rightarrow> heap \<Rightarrow> val result" where
  "extendLoop rt n derived d [] h = Ok derived h"
| "extendLoop rt n derived d (key # keys) h =
     (if isProxy h d then Stuck
      else if getOwn h d key = None then extendLoop rt n derived d keys h
      else if key = ''preConstructor'' \<or> key = ''constructor''
      then extendLoop rt n derived d keys h
      else
        bind (getLoop rt n h d key (Ref d)) (\<lambda>member h1.
        bind (isMarkedPropertyDescriptor member h1) (\<lambda>marked h2.
        bind (getV rt n derived ''prototype'' h2) (\<lambda>pr h3.
        bind (if marked then defineProperty rt n pr key member h3
              else putV rt n pr key member h3) (\<lambda>u h4.
          extendLoop rt n derived d keys h4)))))"

definition extend :: "runtime \<Rightarrow> nat \<Rightarrow> val \<Rightarrow> val \<Rightarrow> heap \<Rightarrow> val result" where
  "extend rt n baseClass classDescriptor h =
     (case alloc h ((bare (DerivedClass baseClass classDescriptor))
                     \<lparr>props := [(''prototype'', Data Undefined True False False)]\<rparr>) of (dc, h1) \<Rightarrow>
        bind (getV rt n baseClass ''prototype'' h1) (\<lambda>bp h2.
        bind (objectCreate bp h2) (\<lambda>pr h3.
        bind (putV rt n (Ref dc) ''prototype'' pr h3) (\<lambda>u h4.
          (case classDescriptor of
             Ref d \<Rightarrow>
               bind (lift (forInKeys n h4 d []) h4) (\<lambda>keys h5.
                 extendLoop rt n (Ref dc) d keys h5)
           | Str s \<Rightarrow> Stuck
           | _ \<Rightarrow> Ok (Ref dc) h4)))))"

section \<open>Calls, construction and the runtime\<close>

text \<open>
  The built-in \<^verbatim>\<open>Object(value)\<close>, called as a function: an object is returned as it is; for
  \<^verbatim>\<open>undefined\<close>, \<^verbatim>\<open>null\<close> or no argument a new empty object is made, for another primitive
  value a new wrapper object.
\<close>

definition objectFunction :: "val list \<Rightarrow> heap \<Rightarrow> val result" where
  "objectFunction args h =
     (case args of
        [] \<Rightarrow> (case alloc h (newObject h) of (a, h1) \<Rightarrow> Ok (Ref a) h1)
      | v # vs \<Rightarrow>
          (case v of
             Undefined \<Rightarrow> (case alloc h (newObject h) of (a, h1) \<Rightarrow> Ok (Ref a) h1)
           | Null \<Rightarrow> (case alloc h (newObject h) of (a, h1) \<Rightarrow> Ok (Ref a) h1)
           | Ref a \<Rightarrow> Ok v h
           | _ \<Rightarrow> (case alloc h (bare (Wrapper v)) of (a, h1) \<Rightarrow> Ok (Ref a) h1)))"

definition isObjectFunction :: "heap \<Rightarrow> val \<Rightarrow> bool" where
  "isObjectFunction h f =
     (case f of
        Ref a \<Rightarrow> (case kind (objs h a) of ObjectFunction \<Rightarrow> True | _ \<Rightarrow> False)
      | _ \<Rightarrow> False)"

definition call ::
  "program \<Rightarrow> runtime \<Rightarrow> nat \<Rightarrow> val \<Rightarrow> val \<Rightarrow> val list \<Rightarrow> heap \<Rightarrow> val result" where
  "call P rt n f this args h =
     (case f of
        Ref a \<Rightarrow>
          (case kind (objs h a) of
             Function i \<Rightarrow> P i rt this args h
           | SuperThunk t k \<Rightarrow> callSuper rt n (Ref t) k args h
           | DerivedClass b d \<Rightarrow> derivedClass rt n f b d args h
           | ObjectFunction \<Rightarrow> objectFunction args h
           | SuperProxy t \<Rightarrow> Stuck
           | _ \<Rightarrow> Fail TypeError h)
      | _ \<Rightarrow> Fail TypeError h)"

text \<open>
  Construction of \<open>f\<close> for the class \<open>newTarget\<close>: the receiver is a new object whose parent is
  \<^verbatim>\<open>newTarget.prototype\<close> (or \<^verbatim>\<open>Object.prototype\<close>, when that is not an object); a body that
  returns an object replaces the receiver by it. The built-in \<^verbatim>\<open>Object\<close> constructed for
  itself behaves as when called, and constructed for another class returns the receiver.
\<close>

definition construct ::
  "program \<Rightarrow> runtime \<Rightarrow> nat \<Rightarrow> val \<Rightarrow> val list \<Rightarrow> val \<Rightarrow> heap \<Rightarrow> val result" where
  "construct P rt n f args newTarget h =
     bind (lift (isConstructor h f) h) (\<lambda>c h0.
       if \<not> c then Fail TypeError h0
       else if isObjectFunction h0 f \<and> newTarget = f then objectFunction args h0
       else
         bind (getV rt n newTarget ''prototype'' h0) (\<lambda>p h1.
           case alloc h1 (case p of Ref pa \<Rightarrow> (bare Ordinary)\<lparr>proto := Some pa\<rparr>
                                   | _ \<Rightarrow> newObject h1) of (this, h2) \<Rightarrow>
             if isObjectFunction h2 f then Ok (Ref this) h2
             else bind (call P rt n f (Ref this) args h2) (\<lambda>r h3.
                    Ok (case r of Ref x \<Rightarrow> r | _ \<Rightarrow> Ref this) h3)))"

text \<open>
  The runtime at depth \<open>n\<close>: every request is served with the runtime of depth \<open>n - 1\<close> for
  the calls it makes, and with \<open>n - 1\<close> as the bound of its chain walks. At depth 0 the fuel
  is used up.
\<close>

primrec run :: "program \<Rightarrow> nat \<Rightarrow> request \<Rightarrow> heap \<Rightarrow> val result" where
  "run P 0 rq h = Stuck"
| "run P (Suc n) rq h =
     (case rq of
        Call f this args \<Rightarrow> call P (run P n) n f this args h
      | Construct f args newTarget \<Rightarrow> construct P (run P n) n f args newTarget h
      | Get ob k \<Rightarrow> getV (run P n) n ob k h
      | Put ob k v \<Rightarrow> putV (run P n) n ob k v h
      | CallSuper target methodName args \<Rightarrow> callSuper (run P n) n target methodName args h
      | Super this \<Rightarrow> super (run P n) n this h
      | PropertyTag descriptor \<Rightarrow> property (run P n) n descriptor h
      | Enhance c members \<Rightarrow> enhance (run P n) n c members h
      | Extend baseClass classDescriptor \<Rightarrow> extend (run P n) n baseClass classDescriptor h)"

section \<open>Reading results\<close>

fun outcome :: "'a result \<Rightarrow> ('a + exn) option" where
  "outcome (Ok v h) = Some (Inl v)"
| "outcome (Fail e h) = Some (Inr e)"
| "outcome Stuck = None"

text \<open>The own properties of object \<open>a\<close> in the heap a computation ends with.\<close>

fun ownAfter :: "'a result \<Rightarrow> addr \<Rightarrow> (string \<times> property) list" where
  "ownAfter (Ok v h) a = props (objs h a)"
| "ownAfter (Fail e h) a = props (objs h a)"
| "ownAfter Stuck a = []"

text \<open>Running a second request in the heap the first one ends with, however it ended.\<close>

fun afterwards :: "'a result \<Rightarrow> (heap \<Rightarrow> 'b result) \<Rightarrow> 'b result" where
  "afterwards (Ok v h) f = f h"
| "afterwards (Fail e h) f = f h"
| "afterwards Stuck f = Stuck"

text \<open>The heap a computation ends with (\<open>h0\<close> when it does not end).\<close>

fun heapAfter :: "'a result \<Rightarrow> heap \<Rightarrow> heap" where
  "heapAfter (Ok v h) h0 = h"
| "heapAfter (Fail e h) h0 = h"
| "heapAfter Stuck h0 = h0"

section \<open>Example classes\<close>

definition mkObject :: "(string \<times> property) list \<Rightarrow> addr option \<Rightarrow> kind \<Rightarrow> obj" where
  "mkObject ps pr k = \<lparr>props = ps, proto = pr, kind = k, extensible = True\<rparr>"

text \<open>
  The built-in objects of the example heaps: \<^verbatim>\<open>Object.prototype\<close> with its \<^verbatim>\<open>constructor\<close>
  (its built-in methods are not used by the code under study and are left out) and the
  function \<^verbatim>\<open>Object\<close>.
\<close>

definition objectPrototype :: "addr \<Rightarrow> obj" where
  "objectPrototype f = mkObject [(''constructor'', Data (Ref f) True False True)] None Ordinary"

definition objectConstructor :: "addr \<Rightarrow> obj" where
  "objectConstructor p = mkObject [(''prototype'', Data (Ref p) False False False)] None ObjectFunction"

text \<open>A member installed by plain assignment.\<close>

definition plain :: "val \<Rightarrow> property" where
  "plain v = Data v True True True"

text \<open>The string concatenation \<^verbatim>\<open>v + "tag"\<close> of the example methods.\<close>

fun plus :: "val \<Rightarrow> string \<Rightarrow> val" where
  "plus (Str s) t = Str (s @ t)"
| "plus Undefined t = Str (''undefined'' @ t)"
| "plus Null t = Str (''null'' @ t)"
| "plus v t = Str t"

text \<open>\<^verbatim>\<open>action() { return "A" }\<close>\<close>

definition returnsA :: body where
  "returnsA rt this args h = Ok (Str ''A'') h"

text \<open>\<^verbatim>\<open>action() { return $super(this).action() + tag }\<close>\<close>

definition superActionPlus :: "string \<Rightarrow> body" where
  "superActionPlus tag rt this args h =
     bind (rt (Super this) h) (\<lambda>wrapper h1.
     bind (rt (Get wrapper ''action'') h1) (\<lambda>f h2.
     bind (rt (Call f wrapper args) h2) (\<lambda>r h3.
       Ok (plus r tag) h3)))"

text \<open>\<^verbatim>\<open>action() { throw "boom" }\<close>\<close>

definition throwsBoom :: body where
  "throwsBoom rt this args h = Fail (Thrown (Str ''boom'')) h"

definition actionProgram :: program where
  "actionProgram i =
     (if i = 0 then returnsA
      else if i = 1 then superActionPlus ''B''
      else if i = 2 then superActionPlus ''C''
      else throwsBoom)"

text \<open>
  Objects 0, 1, 2 are the prototypes of the classes \<^verbatim>\<open>A\<close>, \<^verbatim>\<open>B\<close> (parent \<^verbatim>\<open>A\<close>) and \<^verbatim>\<open>C\<close>
  (parent \<^verbatim>\<open>B\<close>), each with its own \<^verbatim>\<open>action\<close>; 3 is an instance of \<^verbatim>\<open>B\<close>, 4 an instance
  of \<^verbatim>\<open>C\<close>. Object 5 is the prototype of a class whose \<^verbatim>\<open>action\<close> throws, 6 the prototype of
  a class derived from it that overrides \<^verbatim>\<open>action\<close>, 7 an instance of that class. Object 8
  is an instance of \<^verbatim>\<open>B\<close> with a read-only, non-configurable field \<^verbatim>\<open>id\<close>, as
  \<^verbatim>\<open>Object.defineProperty(x, "id", {value: 7, enumerable: true})\<close> leaves it. Objects 10 to 13
  are the four functions, 18 is \<^verbatim>\<open>Object.prototype\<close> and 19 is \<^verbatim>\<open>Object\<close>.
\<close>

definition actionHeap :: heap where
  "actionHeap =
     \<lparr>objs = (\<lambda>a. bare Ordinary)
        (0 := mkObject [(''action'', plain (Ref 10))] (Some 18) Ordinary,
         1 := mkObject [(''action'', plain (Ref 11))] (Some 0) Ordinary,
         2 := mkObject [(''action'', plain (Ref 12))] (Some 1) Ordinary,
         3 := mkObject [] (Some 1) Ordinary,
         4 := mkObject [] (Some 2) Ordinary,
         5 := mkObject [(''action'', plain (Ref 13))] (Some 18) Ordinary,
         6 := mkObject [(''action'', plain (Ref 11))] (Some 5) Ordinary,
         7 := mkObject [] (Some 6) Ordinary,
         8 := mkObject [(''id'', Data (Num 7) False True False)] (Some 1) Ordinary,
         10 := mkObject [] None (Function 0),
         11 := mkObject [] None (Function 1),
         12 := mkObject [] None (Function 2),
         13 := mkObject [] None (Function 3),
         18 := objectPrototype 19,
         19 := objectConstructor 18),
      nxt = 20, objectProto = 18\<rparr>"

text \<open>The method call \<^verbatim>\<open>ob.k(args)\<close>.\<close>

definition invoke :: "runtime \<Rightarrow> val \<Rightarrow> string \<Rightarrow> val list \<Rightarrow> heap \<Rightarrow> val result" where
  "invoke rt ob k args h = bind (rt (Get ob k) h) (\<lambda>f h1. rt (Call f ob args) h1)"

section \<open>Example classes for \<^verbatim>\<open>enhance\<close> and \<^verbatim>\<open>extend\<close>\<close>

text \<open>The \<open>i\<close>-th argument of a call; a missing argument is \<^verbatim>\<open>undefined\<close>.\<close>

definition arg :: "nat \<Rightarrow> val list \<Rightarrow> val" where
  "arg i args = (if i < length args then args ! i else Undefined)"

text \<open>The sum \<^verbatim>\<open>a + b\<close> of two numbers.\<close>

fun add :: "val \<Rightarrow> val \<Rightarrow> val" where
  "add (Num a) (Num b) = Num (a + b)"
| "add x y = Undefined"

text \<open>The base class \<^verbatim>\<open>function K(v) { this.v = v }\<close>.\<close>

definition storesV :: body where
  "storesV rt this args h = bind (rt (Put this ''v'' (arg 0 args)) h) (\<lambda>u h1. Ok Undefined h1)"

text \<open>\<^verbatim>\<open>preConstructor(a, b) { this.note = "pre"; this.sum = 0; return [a + b] }\<close>\<close>

definition preAdds :: body where
  "preAdds rt this args h =
     bind (rt (Put this ''note'' (Str ''pre'')) h) (\<lambda>u h1.
     bind (rt (Put this ''sum'' (Num 0)) h1) (\<lambda>u h2.
       case alloc h2 (bare (Array [add (arg 0 args) (arg 1 args)])) of
         (a, h3) \<Rightarrow> Ok (Ref a) h3))"

text \<open>\<^verbatim>\<open>constructor(a, b) { this.sum = a; this.b = b }\<close>\<close>

definition ctorSum :: body where
  "ctorSum rt this args h =
     bind (rt (Put this ''sum'' (arg 0 args)) h) (\<lambda>u h1.
     bind (rt (Put this ''b'' (arg 1 args)) h1) (\<lambda>u h2. Ok Undefined h2))"

text \<open>\<^verbatim>\<open>greet() { return "hello" }\<close>\<close>

definition greets :: body where
  "greets rt this args h = Ok (Str ''hello'') h"

definition memberProgram :: program where
  "memberProgram i = (if i = 0 then storesV else if i = 1 then preAdds else if i = 2 then ctorSum else greets)"

text \<open>
  Object 0 is the class \<^verbatim>\<open>K\<close>, 1 its prototype, 2 an instance made earlier. Objects 3, 4, 6,
  9 and 16 are member maps: \<^verbatim>\<open>{x: 5}\<close>, \<^verbatim>\<open>{y: d}\<close> with the tagged descriptor
  \<^verbatim>\<open>d = property({writable: false, value: 7})\<close> (object 5), \<^verbatim>\<open>{y: 8}\<close>, \<^verbatim>\<open>{z: e, w: t}\<close> and
  \<^verbatim>\<open>{x: 6}\<close>. Object 7 is a tagged descriptor \<^verbatim>\<open>t = property({value: 9})\<close> and object 8 an
  object \<^verbatim>\<open>e = Object.create(t)\<close>, which inherits the tag of \<^verbatim>\<open>t\<close> and has no property of
  its own. Objects 10, 13 and 14 are class descriptors: one with the \<^verbatim>\<open>preConstructor\<close> 11
  and the \<^verbatim>\<open>constructor\<close> 12, the empty one, and \<^verbatim>\<open>{greet}\<close> with the method 15. Object 18
  is \<^verbatim>\<open>Object.prototype\<close>, the parent of every object written as a literal and of
  \<^verbatim>\<open>K.prototype\<close>, and 19 is \<^verbatim>\<open>Object\<close>.
\<close>

definition memberHeap :: heap where
  "memberHeap =
     \<lparr>objs = (\<lambda>a. bare Ordinary)
        (0 := mkObject [(''prototype'', Data (Ref 1) True False False)] None (Function 0),
         1 := mkObject [(''constructor'', Data (Ref 0) True False True)] (Some 18) Ordinary,
         2 := mkObject [(''v'', plain (Num 1))] (Some 1) Ordinary,
         3 := mkObject [(''x'', plain (Num 5))] (Some 18) Ordinary,
         4 := mkObject [(''y'', plain (Ref 5))] (Some 18) Ordinary,
         5 := mkObject [(''writable'', plain (Bool False)), (''value'', plain (Num 7)),
                        (''$IsPropertyDescriptor'', plain (Bool True))] (Some 18) Ordinary,
         6 := mkObject [(''y'', plain (Num 8))] (Some 18) Ordinary,
         7 := mkObject [(''value'', plain (Num 9)), (''$IsPropertyDescriptor'', plain (Bool True))] (Some 18) Ordinary,
         8 := mkObject [] (Some 7) Ordinary,
         9 := mkObject [(''z'', plain (Ref 8)), (''w'', plain (Ref 7))] (Some 18) Ordinary,
         10 := mkObject [(''preConstructor'', plain (Ref 11)), (''constructor'', plain (Ref 12))] (Some 18) Ordinary,
         11 := mkObject [] None (Function 1),
         12 := mkObject [] None (Function 2),
         13 := mkObject [] (Some 18) Ordinary,
         14 := mkObject [(''greet'', plain (Ref 15))] (Some 18) Ordinary,
         15 := mkObject [] None (Function 3),
         16 := mkObject [(''x'', plain (Num 6))] (Some 18) Ordinary,
         18 := objectPrototype 19,
         19 := objectConstructor 18),
      nxt = 20, objectProto = 18\<rparr>"

text \<open>The parent of the object a value refers to.\<close>

definition parentOf :: "heap \<Rightarrow> val \<Rightarrow> val" where
  "parentOf h v = (case v of Ref a \<Rightarrow> protoVal h a | _ \<Rightarrow> Undefined)"

text \<open>The heap after \<^verbatim>\<open>extend(K, {preConstructor, constructor})\<close>: the new class is object 20.\<close>

definition extendedHeap :: heap where
  "extendedHeap = heapAfter (run memberProgram 13 (Extend (Ref 0) (Ref 10)) memberHeap) memberHeap"

text \<open>The heap after \<^verbatim>\<open>enhance(K, {x: 5})\<close>.\<close>

definition enhancedHeap :: heap where
  "enhancedHeap = heapAfter (run memberProgram 13 (Enhance (Ref 0) (Ref 3)) memberHeap) memberHeap"

section \<open>Example classes for nested and repeated dispatch\<close>







section \<open>Example classes for the wrapper of \<^verbatim>\<open>$super\<close>\<close>

text \<open>\<^verbatim>\<open>who() { return this }\<close>\<close>

definition returnsThis :: body where
  "returnsThis rt this args h = Ok this h"

text \<open>\<^verbatim>\<open>who() { return $super(this).who() }\<close>\<close>

definition superWho :: body where
  "superWho rt this args h =
     bind (rt (Super this) h) (\<lambda>wrapper h1.
     bind (rt (Get wrapper ''who'') h1) (\<lambda>f h2.
       rt (Call f wrapper args) h2))"

definition whoProgram :: program where
  "whoProgram i = (if i = 0 then returnsThis else superWho)"

text \<open>
  Object 0 is the prototype of a class \<^verbatim>\<open>A\<close> whose \<^verbatim>\<open>who\<close> returns its receiver, 1 the
  prototype of a class \<^verbatim>\<open>B\<close> (parent \<^verbatim>\<open>A\<close>) whose \<^verbatim>\<open>who\<close> asks the ancestor, 3 an instance of
  \<^verbatim>\<open>B\<close>, and 4 an instance of \<^verbatim>\<open>B\<close> made non-extensible by \<^verbatim>\<open>Object.preventExtensions\<close>.
  Objects 10 and 11 are the two functions, 18 is \<^verbatim>\<open>Object.prototype\<close> and 19 is \<^verbatim>\<open>Object\<close>.
\<close>

definition whoHeap :: heap where
  "whoHeap =
     \<lparr>objs = (\<lambda>a. bare Ordinary)
        (0 := mkObject [(''who'', plain (Ref 10))] (Some 18) Ordinary,
         1 := mkObject [(''who'', plain (Ref 11))] (Some 0) Ordinary,
         3 := mkObject [] (Some 1) Ordinary,
         4 := (mkObject [] (Some 1) Ordinary)\<lparr>extensible := False\<rparr>,
         10 := mkObject [] None (Function 0),
         11 := mkObject [] None (Function 1),
         18 := objectPrototype 19,
         19 := objectConstructor 18),
      nxt = 20, objectProto = 18\<rparr>"
section \<open>Prototype chains\<close>

text \<open>
  \<open>isChain h a cs\<close>: the parents of \<open>a\<close>, nearest first, are exactly \<open>cs\<close>, and no object of
  the chain is an interception wrapper.
\<close>

fun isChain :: "heap \<Rightarrow> addr \<Rightarrow> addr list \<Rightarrow> bool" where
  "isChain h a [] = (\<not> isProxy h a \<and> proto (objs h a) = None)"
| "isChain h a (b # bs) = (\<not> isProxy h a \<and> proto (objs h a) = Some b \<and> isChain h b bs)"


text \<open>Object \<open>a\<close> has no own property \<open>k\<close>, or one whose descriptor value is \<open>v\<close>.\<close>

definition sameOrNone :: "heap \<Rightarrow> string \<Rightarrow> val \<Rightarrow> addr \<Rightarrow> bool" where
  "sameOrNone h k v a = (case getOwn h a k of None \<Rightarrow> True | Some p \<Rightarrow> descriptorValue p = v)"

text \<open>Object \<open>a\<close> has no own property \<open>k\<close>, or a data property \<open>k\<close> that holds \<open>f\<close>.\<close>

definition onlyOverride :: "heap \<Rightarrow> string \<Rightarrow> val \<Rightarrow> addr \<Rightarrow> bool" where
  "onlyOverride h k f a =
     (case getOwn h a k of
        None \<Rightarrow> True
      | Some (Data v w e c) \<Rightarrow> v = f
      | Some (Accessor g s e c) \<Rightarrow> False)"

text \<open>Address \<open>a\<close> is in use: allocation hands out \<open>nxt h\<close> and counts upwards.\<close>

definition allocated :: "heap \<Rightarrow> addr \<Rightarrow> bool" where
  "allocated h a = (a < nxt h)"

text \<open>
  Object \<open>t\<close> has an own, non-configurable property \<open>k\<close> that is a non-writable data property
  or an accessor without getter: the properties an interception wrapper must report as
  they are.
\<close>

definition frozenOwn :: "heap \<Rightarrow> addr \<Rightarrow> string \<Rightarrow> bool" where
  "frozenOwn h t k =
     (case getOwn h t k of
        None \<Rightarrow> False
      | Some (Data v w e c) \<Rightarrow> \<not> c \<and> \<not> w
      | Some (Accessor g s e c) \<Rightarrow> \<not> c \<and> g = Undefined)"

section \<open>Assignment to an object\<close>

text \<open>
  The strict assignment of \<open>k\<close> on the first object of a chain goes through: the nearest
  level that has \<open>k\<close> holds a writable data property, or no level has \<open>k\<close>.
\<close>

fun accepts :: "heap \<Rightarrow> addr list \<Rightarrow> string \<Rightarrow> bool" where
  "accepts h [] k = True"
| "accepts h (a # as) k =
     (case getOwn h a k of
        None \<Rightarrow> accepts h as k
      | Some (Data v w e c) \<Rightarrow> w
      | Some (Accessor g s e c) \<Rightarrow> False)"

text \<open>
  The own property \<open>k\<close> of \<open>a\<close> after such an assignment of \<open>v\<close>: an own data property keeps
  its attributes, a new one is writable, enumerable and configurable.
\<close>

definition assigned :: "heap \<Rightarrow> addr \<Rightarrow> string \<Rightarrow> val \<Rightarrow> property" where
  "assigned h a k v =
     (case getOwn h a k of
        Some (Data v0 w e c) \<Rightarrow> Data v w e c
      | _ \<Rightarrow> Data v True True True)"

text \<open>A field: an own enumerable data property.\<close>

definition isField :: "heap \<Rightarrow> addr \<Rightarrow> string \<Rightarrow> bool" where
  "isField h s k = (case getOwn h s k of Some (Data v w e c) \<Rightarrow> e | _ \<Rightarrow> False)"

definition fieldValue :: "heap \<Rightarrow> addr \<Rightarrow> string \<Rightarrow> val" where
  "fieldValue h s k = (case getOwn h s k of Some p \<Rightarrow> descriptorValue p | None \<Rightarrow> Undefined)"

text \<open>
  Key \<open>k\<close> of the source \<open>s\<close> can be copied by plain assignment to the first object of the chain
  \<open>rs\<close>: it is a field that the chain accepts, or \<^verbatim>\<open>Object.assign\<close> skips it.
\<close>

definition copyable :: "heap \<Rightarrow> addr \<Rightarrow> addr list \<Rightarrow> string \<Rightarrow> bool" where
  "copyable h s rs k =
     (case getOwn h s k of
        None \<Rightarrow> True
      | Some (Data v w e c) \<Rightarrow> (if e then accepts h rs k else True)
      | Some (Accessor g st e c) \<Rightarrow> \<not> e)"

text \<open>Heap \<open>h'\<close> is heap \<open>h\<close> but for the own properties of \<open>r\<close>.\<close>

definition sameExcept :: "addr \<Rightarrow> heap \<Rightarrow> heap \<Rightarrow> bool" where
  "sameExcept r h h' =
     (nxt h' = nxt h \<and> proto (objs h' r) = proto (objs h r) \<and> kind (objs h' r) = kind (objs h r)
      \<and> (\<forall>a. a \<noteq> r \<longrightarrow> objs h' a = objs h a))"

text \<open>
  The heap in which the function of a class made by \<^verbatim>\<open>extend\<close> starts its work, called in
  heap \<open>h\<close> with \<open>args\<close>: the array of the arguments and the courier are allocated.
\<close>

definition entryHeap :: "heap \<Rightarrow> val list \<Rightarrow> heap" where
  "entryHeap h args =
     (case alloc h (bare (Array args)) of (argsArray, h0) \<Rightarrow> snd (alloc h0 (newObject h0)))"

definition courierOf :: "heap \<Rightarrow> addr" where
  "courierOf h = Suc (nxt h)"

section \<open>The walk of \<^verbatim>\<open>callSuper\<close> along a chain\<close>

lemma not_proxy_kind:
  "\<not> isProxy h a \<Longrightarrow> (case kind (objs h a) of SuperProxy t \<Rightarrow> X t | _ \<Rightarrow> Y) = Y"
  by (auto simp: isProxy_def split: kind.splits)

lemma protoVal_Some: "proto (objs h a) = Some b \<Longrightarrow> protoVal h a = Ref b"
  by (simp add: protoVal_def)

lemma protoVal_None: "proto (objs h a) = None \<Longrightarrow> protoVal h a = Null"
  by (simp add: protoVal_def)


lemma loop_end:
  "isChain h b cs \<Longrightarrow> list_all (sameOrNone h m dbm) (b # cs) \<Longrightarrow> Suc (length cs) < i \<Longrightarrow>
   callSuperLoop rt n i tv t m args dbm (Ref b) s h = Ok Undefined h"
proof (induction cs arbitrary: b i s)
  case Nil
  then obtain j where i: "i = Suc (Suc j)" by (cases i; cases "i - 1") auto
  from Nil show ?case using i
    by (cases "getOwn h b m") (simp_all add: protoVal_None sameOrNone_def)
next
  case (Cons c cs)
  then obtain j where i: "i = Suc j" and j: "Suc (length cs) < j" by (cases i) auto
  from Cons.prems(1) have np: "\<not> isProxy h b" and pr: "proto (objs h b) = Some c" and ch: "isChain h c cs"
    by simp_all
  from Cons.prems(2) have sb: "sameOrNone h m dbm b" and rest: "list_all (sameOrNone h m dbm) (c # cs)" by simp_all
  note IH = Cons.IH[OF ch rest j]
  show ?case using i np pr IH sb
    by (cases "getOwn h b m") (simp_all add: protoVal_Some sameOrNone_def)
qed





lemma onlyOverride_same: "onlyOverride h k f a \<Longrightarrow> sameOrNone h k f a"
  by (auto simp: onlyOverride_def sameOrNone_def split: option.splits property.splits)

lemma getLoop_override:
  "isChain h b cs \<Longrightarrow> list_all (onlyOverride h k f) (b # cs) \<Longrightarrow> length cs < n \<Longrightarrow>
   \<exists>dbm. getLoop rt n h b k r = Ok dbm h \<and> list_all (sameOrNone h k dbm) (b # cs)"
proof (induction cs arbitrary: b n)
  case Nil
  then obtain j where n: "n = Suc j" by (cases n) auto
  from Nil have np: "\<not> isProxy h b" and pr: "proto (objs h b) = None" by simp_all
  from Nil.prems(2) show ?case using n np pr
    by (auto simp: not_proxy_kind sameOrNone_def onlyOverride_def split: option.splits property.splits)
next
  case (Cons c cs)
  then obtain j where n: "n = Suc j" and j: "length cs < j" by (cases n) auto
  from Cons.prems(1) have np: "\<not> isProxy h b" and pr: "proto (objs h b) = Some c" and ch: "isChain h c cs"
    by simp_all
  from Cons.prems(2) have ob: "onlyOverride h k f b" and orest: "list_all (onlyOverride h k f) (c # cs)"
    by simp_all
  show ?case
  proof (cases "getOwn h b k")
    case None
    from Cons.IH[OF ch orest j] obtain dbm where
      "getLoop rt j h c k r = Ok dbm h" "list_all (sameOrNone h k dbm) (c # cs)" by blast
    moreover from None have "sameOrNone h k dbm b" by (simp add: sameOrNone_def)
    ultimately show ?thesis using None n np pr by (simp add: not_proxy_kind)
  next
    case (Some p)
    with ob obtain w e c' where p: "p = Data f w e c'" by (cases p) (auto simp: onlyOverride_def)
    have "list_all (sameOrNone h k f) (c # cs)"
      using orest unfolding list_all_iff by (blast intro: onlyOverride_same)
    moreover from Some p have "sameOrNone h k f b" by (simp add: sameOrNone_def)
    ultimately show ?thesis using Some p n np by (simp add: not_proxy_kind)
  qed
qed

section \<open>The claims\<close>

text \<open>
  C1. The claim: when the ancestor override that \<^verbatim>\<open>callSuper\<close> invokes raises a failure, the
  failure reaches the caller unchanged and the marker \<^verbatim>\<open>$BaseReference\<close> is cleared before it
  does, so that no marker is left on the instance on any exit path.

  The code has no \<^verbatim>\<open>try\<close>/\<^verbatim>\<open>finally\<close> around line 30: the \<^verbatim>\<open>delete\<close> of line 33 is skipped by
  a throw. On the instance 7, whose ancestor \<^verbatim>\<open>action\<close> throws, \<^verbatim>\<open>callSuper(x, "action")\<close> does
  propagate the thrown value, but the instance keeps the marker, set to the ancestor's
  level 5. The same call repeated then starts its search at that stale level, finds nothing
  above it and returns \<^verbatim>\<open>undefined\<close> without invoking the ancestor at all.
\<close>

theorem callSuper_throw_keeps_marker:
  "outcome (run actionProgram 10 (CallSuper (Ref 7) ''action'' []) actionHeap)
     = Some (Inr (Thrown (Str ''boom'')))
   \<and> ownAfter (run actionProgram 10 (CallSuper (Ref 7) ''action'' []) actionHeap) 7
     = [(''$BaseReference'', plain (Ref 5))]
   \<and> outcome (afterwards (run actionProgram 10 (CallSuper (Ref 7) ''action'' []) actionHeap)
        (run actionProgram 10 (CallSuper (Ref 7) ''action'' [])))
     = Some (Inl Undefined)"
  by code_simp

text \<open>
  C2. The claim: for every base class \<open>B\<close>, descriptor \<open>D\<close> and arguments \<open>A\<close>, constructing
  \<^verbatim>\<open>extend(B, D)\<close> with \<open>A\<close> runs the \<^verbatim>\<open>preConstructor\<close> (if any) on a new courier with \<open>A\<close>, passes
  its result (or \<open>A\<close>) to the construction of \<open>B\<close>, yields an instance whose prototype chain
  is that of the derived class, and then runs the \<^verbatim>\<open>constructor\<close> (if any) on the instance
  with the original \<open>A\<close>.

  Line 117 constructs the base for the new target \<^verbatim>\<open>derivedClass\<close>, the closure's own class,
  and line 122 returns the object so obtained. When the base class \<open>B\<close> is itself a class made
  by \<^verbatim>\<open>extend\<close>, its function does the same for its own class and returns that object, which
  replaces the receiver prepared for the outer class. With \<^verbatim>\<open>M = extend(K, {})\<close> and
  \<^verbatim>\<open>D = extend(M, {greet})\<close>, the instance \<^verbatim>\<open>new D(1)\<close> has the base constructor's field
  \<^verbatim>\<open>v = 1\<close>, but its parent is \<^verbatim>\<open>M.prototype\<close> (object 21), not \<^verbatim>\<open>D.prototype\<close> (object 23),
  and it has no \<^verbatim>\<open>greet\<close>. The list below is: the parent of the instance, \<^verbatim>\<open>M.prototype\<close>,
  \<^verbatim>\<open>D.prototype\<close>, the instance's \<^verbatim>\<open>greet\<close>, the instance's \<^verbatim>\<open>v\<close>. Built directly on \<^verbatim>\<open>K\<close>, the
  same descriptor gives an instance with parent \<^verbatim>\<open>D.prototype\<close> and the method 15.
\<close>

theorem nested_extend_loses_prototype:
  "outcome
     (bind (run memberProgram 12 (Extend (Ref 0) (Ref 13)) memberHeap) (\<lambda>middle h1.
      bind (run memberProgram 12 (Extend middle (Ref 14)) h1) (\<lambda>derived h2.
      bind (run memberProgram 12 (Construct derived [Num 1] derived) h2) (\<lambda>x h3.
      bind (run memberProgram 12 (Get middle ''prototype'') h3) (\<lambda>mp h4.
      bind (run memberProgram 12 (Get derived ''prototype'') h4) (\<lambda>dp h5.
      bind (run memberProgram 12 (Get x ''greet'') h5) (\<lambda>g h6.
      bind (run memberProgram 12 (Get x ''v'') h6) (\<lambda>v h7.
        Ok [parentOf h7 x, mp, dp, g, v] h7))))))))
     = Some (Inl [Ref 21, Ref 21, Ref 23, Undefined, Num 1])
   \<and> outcome
     (bind (run memberProgram 12 (Extend (Ref 0) (Ref 14)) memberHeap) (\<lambda>derived h2.
      bind (run memberProgram 12 (Construct derived [Num 1] derived) h2) (\<lambda>x h3.
      bind (run memberProgram 12 (Get derived ''prototype'') h3) (\<lambda>dp h5.
      bind (run memberProgram 12 (Get x ''greet'') h5) (\<lambda>g h6.
      bind (run memberProgram 12 (Get x ''v'') h6) (\<lambda>v h7.
        Ok [parentOf h7 x, dp, g, v] h7))))))
     = Some (Inl [Ref 21, Ref 21, Ref 15, Num 1])"
  by code_simp




text \<open>
  C6. When the walk from the search start point to the end of the chain finds no ancestor
  override (in particular when no level defines the method at all), \<^verbatim>\<open>callSuper\<close> returns
  \<^verbatim>\<open>undefined\<close> and raises nothing.

  The start point \<open>b\<close> is whatever lines 12-14 yield: the instance itself, or the level the
  marker holds. "No ancestor override" is: every level from \<open>b\<close> upwards that defines the
  method at all defines it as a data property holding one and the same function \<open>f\<close>. The
  fuel \<open>n\<close> exceeds the length of the chain, so the result is a return, not an exhausted
  walk; the heap is unchanged.
\<close>

theorem callSuper_no_ancestor:
  assumes "hasProperty n h t ''$BaseReference'' = Some marked"
    and "(if marked then getV rt n (Ref t) ''$BaseReference'' h else Ok (Ref t) h) = Ok (Ref b) h"
    and "isChain h b cs"
    and "Suc (length cs) < n"
    and "list_all (onlyOverride h m f) (b # cs)"
  shows "callSuper rt n (Ref t) m args h = Ok Undefined h"
proof -
  from assms(4) have "length cs < n" by simp
  from getLoop_override[OF assms(3) assms(5) this] obtain dbm where
    g: "getLoop rt n h b m (Ref b) = Ok dbm h" and s: "list_all (sameOrNone h m dbm) (b # cs)"
    by blast
  have "callSuperLoop rt n n (Ref t) t m args dbm (Ref b) False h = Ok Undefined h"
    by (rule loop_end[OF assms(3) s assms(4)])
  then show ?thesis using assms(1) assms(2) g
    by (simp add: callSuper_def getV_def)
qed

theorem callSuper_no_ancestor_witness:
  "callSuper (run actionProgram 10) 10 (Ref 3) ''noSuchMethod'' [] actionHeap
     = Ok Undefined actionHeap
   \<and> callSuper (run actionProgram 10) 10 (Ref 0) ''action'' [Num 1] actionHeap
     = Ok Undefined actionHeap"
proof -
  have a: "hasProperty 10 actionHeap 3 ''$BaseReference'' = Some False" by code_simp
  have b: "(if False then getV (run actionProgram 10) 10 (Ref 3) ''$BaseReference'' actionHeap
            else Ok (Ref 3) actionHeap) = Ok (Ref 3) actionHeap" by simp
  have c: "isChain actionHeap 3 [1, 0, 18]" by code_simp
  have d: "Suc (length [1, 0, 18 :: addr]) < 10" by simp
  have e: "list_all (onlyOverride actionHeap ''noSuchMethod'' Undefined) [3, 1, 0, 18]" by code_simp
  have a': "hasProperty 10 actionHeap 0 ''$BaseReference'' = Some False" by code_simp
  have b': "(if False then getV (run actionProgram 10) 10 (Ref 0) ''$BaseReference'' actionHeap
            else Ok (Ref 0) actionHeap) = Ok (Ref 0) actionHeap" by simp
  have c': "isChain actionHeap 0 [18]" by code_simp
  have d': "Suc (length [18 :: addr]) < 10" by simp
  have e': "list_all (onlyOverride actionHeap ''action'' (Ref 10)) [0, 18]" by code_simp
  show ?thesis
    using callSuper_no_ancestor[OF a b c d e] callSuper_no_ancestor[OF a' b' c' d' e']
    by simp
qed

text \<open>
  C8. The claim: for every instance \<open>x\<close>, the first call of \<^verbatim>\<open>$super(x)\<close> creates an
  interception wrapper and caches it on \<open>x\<close>; every later call returns the very same wrapper;
  reading a method name on the wrapper and calling what is read performs exactly
  \<^verbatim>\<open>callSuper(x, methodName, ...arguments)\<close>.

  Line 50 tests the cache with \<^verbatim>\<open>in\<close>, which also finds a \<^verbatim>\<open>$SuperProxy\<close> that \<open>x\<close> inherits.
  In \<open>whoHeap\<close>, \<^verbatim>\<open>A.who\<close> returns its receiver and \<^verbatim>\<open>B.who\<close> returns \<^verbatim>\<open>$super(this).who()\<close>. Once
  \<^verbatim>\<open>$super\<close> has been called on the prototype of \<^verbatim>\<open>B\<close> (object 1), which caches the wrapper 20
  there, the first call \<^verbatim>\<open>$super(x)\<close> on the instance \<open>x\<close> of \<^verbatim>\<open>B\<close> (object 3) returns that same
  wrapper 20, whose target is the prototype, and caches nothing on \<open>x\<close>; \<^verbatim>\<open>x.who()\<close> then
  dispatches with the prototype as receiver and returns object 1, where
  \<^verbatim>\<open>callSuper(x, "who")\<close> returns \<open>x\<close>. Without the earlier call on the prototype, \<^verbatim>\<open>x.who()\<close>
  returns \<open>x\<close> and leaves the wrapper cached on \<open>x\<close>.
\<close>

theorem super_returns_inherited_wrapper:
  "outcome (bind (run whoProgram 10 (Super (Ref 1)) whoHeap) (\<lambda>p h1.
            bind (run whoProgram 10 (Super (Ref 3)) h1) (\<lambda>w h2. Ok [p, w] h2)))
     = Some (Inl [Ref 20, Ref 20])
   \<and> ownAfter (bind (run whoProgram 10 (Super (Ref 1)) whoHeap) (\<lambda>p h1.
               run whoProgram 10 (Super (Ref 3)) h1)) 3
     = []
   \<and> outcome (bind (invoke (run whoProgram 10) (Ref 1) ''who'' [] whoHeap) (\<lambda>p h1.
               invoke (run whoProgram 10) (Ref 3) ''who'' [] h1))
     = Some (Inl (Ref 1))
   \<and> outcome (bind (invoke (run whoProgram 10) (Ref 1) ''who'' [] whoHeap) (\<lambda>p h1.
               run whoProgram 10 (CallSuper (Ref 3) ''who'' []) h1))
     = Some (Inl (Ref 3))
   \<and> outcome (invoke (run whoProgram 10) (Ref 3) ''who'' [] whoHeap)
     = Some (Inl (Ref 3))
   \<and> ownAfter (invoke (run whoProgram 10) (Ref 3) ''who'' [] whoHeap) 3
     = [(''$SuperProxy'', plain (Ref 20))]"
  by code_simp

text \<open>
  C10. In \<^verbatim>\<open>enhance\<close> and in \<^verbatim>\<open>extend\<close> alike, a member-map entry is installed by property
  definition only when the entry object carries \<^verbatim>\<open>$IsPropertyDescriptor\<close> as an own property;
  an entry that merely inherits the marker from its parents is installed as a plain value.

  For an entry that is an object \<open>d\<close>, the test of lines 63-65 is the own-property lookup
  \<open>getOwn h d\<close>, whatever the chain of \<open>d\<close> holds; one iteration of the loop of \<^verbatim>\<open>enhance\<close>
  (lines 85-97), and of the loop of \<^verbatim>\<open>extend\<close> (lines 127-142) for a key that is not reserved,
  assigns \<open>d\<close> itself when \<open>d\<close> has no own marker and calls \<^verbatim>\<open>Object.defineProperty\<close> with \<open>d\<close>
  otherwise.
\<close>

theorem tagged_only_when_own:
  assumes "\<not> isProxy h m" and "getOwn h m key = Some (Data (Ref d) w e c)" and "\<not> isProxy h d"
    and "\<not> isProxy h cc" and "getOwn h cc ''prototype'' = Some (Data pr w' e' c')"
  shows "isMarkedPropertyDescriptor (Ref d) h = Ok (getOwn h d ''$IsPropertyDescriptor'' \<noteq> None) h
       \<and> enhanceLoop rt (Suc n) (Ref cc) m (key # keys) h =
           bind (if getOwn h d ''$IsPropertyDescriptor'' = None
                 then putV rt (Suc n) pr key (Ref d) h
                 else defineProperty rt (Suc n) pr key (Ref d) h) (\<lambda>u h4.
             enhanceLoop rt (Suc n) (Ref cc) m keys h4)
       \<and> (key \<noteq> ''preConstructor'' \<and> key \<noteq> ''constructor'' \<longrightarrow>
           extendLoop rt (Suc n) (Ref cc) m (key # keys) h =
             bind (if getOwn h d ''$IsPropertyDescriptor'' = None
                   then putV rt (Suc n) pr key (Ref d) h
                   else defineProperty rt (Suc n) pr key (Ref d) h) (\<lambda>u h4.
               extendLoop rt (Suc n) (Ref cc) m keys h4))"
  using assms by (simp add: not_proxy_kind isMarkedPropertyDescriptor_def getV_def)

text \<open>
  The entry \<^verbatim>\<open>z\<close> of the member map 9 is the object 8, which inherits the marker from the
  tagged descriptor 7 and has none of its own: it becomes the value of \<^verbatim>\<open>z\<close>. The entry \<^verbatim>\<open>w\<close>
  is the tagged descriptor 7 itself: \<^verbatim>\<open>w\<close> becomes the read-only property it describes.
\<close>

theorem tagged_only_when_own_witness:
  "hasProperty 5 memberHeap 8 ''$IsPropertyDescriptor'' = Some True
   \<and> enhanceLoop (run memberProgram 12) (Suc 11) (Ref 0) 9 [''z'', ''w''] memberHeap
       = bind (putV (run memberProgram 12) (Suc 11) (Ref 1) ''z'' (Ref 8) memberHeap) (\<lambda>u h4.
           enhanceLoop (run memberProgram 12) (Suc 11) (Ref 0) 9 [''w''] h4)
   \<and> ownAfter (run memberProgram 13 (Enhance (Ref 0) (Ref 9)) memberHeap) 1
       = [(''constructor'', Data (Ref 0) True False True), (''z'', plain (Ref 8)),
          (''w'', Data (Num 9) False False False)]
   \<and> ownAfter (run memberProgram 13 (Extend (Ref 0) (Ref 9)) memberHeap) 21
       = [(''z'', plain (Ref 8)), (''w'', Data (Num 9) False False False)]"
proof -
  have a: "\<not> isProxy memberHeap 9" by code_simp
  have b: "getOwn memberHeap 9 ''z'' = Some (Data (Ref 8) True True True)" by code_simp
  have c: "\<not> isProxy memberHeap 8" by code_simp
  have d: "\<not> isProxy memberHeap 0" by code_simp
  have e: "getOwn memberHeap 0 ''prototype'' = Some (Data (Ref 1) True False False)" by code_simp
  have own: "getOwn memberHeap 8 ''$IsPropertyDescriptor'' = None" by code_simp
  have inh: "hasProperty 5 memberHeap 8 ''$IsPropertyDescriptor'' = Some True" by code_simp
  have en: "ownAfter (run memberProgram 13 (Enhance (Ref 0) (Ref 9)) memberHeap) 1
       = [(''constructor'', Data (Ref 0) True False True), (''z'', plain (Ref 8)),
          (''w'', Data (Num 9) False False False)]" by code_simp
  have ex: "ownAfter (run memberProgram 13 (Extend (Ref 0) (Ref 9)) memberHeap) 21
       = [(''z'', plain (Ref 8)), (''w'', Data (Num 9) False False False)]" by code_simp
  from tagged_only_when_own[OF a b c d e, of "run memberProgram 12" 11 "[''w'']"] own inh en ex
  show ?thesis by simp
qed

end
